theory Spec2Isabelle
  imports Main
begin

section \<open>Strings\<close>

text \<open>
  A Python \<open>str\<close> is modelled as a HOL \<open>string\<close>, a list of 8-bit characters.
  The string methods the scripts call are written out on that type. Case mapping is
  the ASCII one: \<open>A\<close> .. \<open>Z\<close> go to \<open>a\<close> .. \<open>z\<close>, every other character is
  left as it is.
\<close>

definition lower_char :: "char \<Rightarrow> char" where
  "lower_char c =
     (let n = (of_char c :: nat) in if 65 \<le> n \<and> n \<le> 90 then char_of (n + 32) else c)"

text \<open>\<open>s.lower()\<close>\<close>

definition lower :: "string \<Rightarrow> string" where
  "lower s = map lower_char s"

text \<open>
  \<open>s.replace(old, new)\<close> where \<open>old\<close> is a string of one character \<open>c\<close>, which is
  how both scripts call it: every occurrence of \<open>c\<close> becomes \<open>new\<close> (which may be
  empty), all other characters stay.
\<close>

definition replace_char :: "char \<Rightarrow> string \<Rightarrow> string \<Rightarrow> string" where
  "replace_char c new s = concat (map (\<lambda>x. if x = c then new else [x]) s)"

text \<open>
  \<open>needle in hay\<close> on strings: \<open>needle\<close> occurs in \<open>hay\<close> as a contiguous run.
\<close>

fun starts_with :: "string \<Rightarrow> string \<Rightarrow> bool" where
  "starts_with [] hay = True"
| "starts_with (n # ns) [] = False"
| "starts_with (n # ns) (h # hs) = (n = h \<and> starts_with ns hs)"

fun str_contains :: "string \<Rightarrow> string \<Rightarrow> bool" where
  "str_contains needle [] = (needle = [])"
| "str_contains needle (h # hs) = (starts_with needle (h # hs) \<or> str_contains needle hs)"

section \<open>generate-all-assets.py: the filename normalizer\<close>

text \<open>
  \<^verbatim>\<open>return name.lower().replace(" ", "-").replace("'", "").replace("(", "").replace(")", "")\<close>
\<close>

definition normalize_filename :: "string \<Rightarrow> string" where
  "normalize_filename name =
     replace_char (CHR '')'') []
       (replace_char (CHR ''('') []
         (replace_char (CHR 0x27) []
           (replace_char (CHR '' '') ''-'' (lower name))))"

text \<open>
  generate-crystal-assets.py computes its stem inline, in the loop of its
  \<open>generate_assets\<close>:
  \<^verbatim>\<open>filename = name.lower().replace(" ", "-").replace("'", "")\<close>
\<close>

definition svg_filename :: "string \<Rightarrow> string" where
  "svg_filename name =
     replace_char (CHR 0x27) [] (replace_char (CHR '' '') ''-'' (lower name))"


text \<open>\<open>s.strip()\<close>: white space is removed at both ends.\<close>

definition is_space :: "char \<Rightarrow> bool" where
  "is_space c =
     (let n = (of_char c :: nat) in (9 \<le> n \<and> n \<le> 13) \<or> (28 \<le> n \<and> n \<le> 32))"

definition strip :: "string \<Rightarrow> string" where
  "strip s = rev (dropWhile is_space (rev (dropWhile is_space s)))"

text \<open>\<open>s.split(c)\<close> for a separator of one character.\<close>

fun split_on :: "char \<Rightarrow> string \<Rightarrow> string list" where
  "split_on c [] = [[]]"
| "split_on c (x # xs) =
     (if x = c then [] # split_on c xs
      else (case split_on c xs of [] \<Rightarrow> [[x]] | w # ws \<Rightarrow> (x # w) # ws))"

section \<open>Paths, presets and what the scripts print\<close>

text \<open>
  A \<open>pathlib.Path\<close> is kept as the scripts build it: the repository root
  (\<open>Path(__file__).parent.parent\<close>) followed by the components joined on with \<open>/\<close>.
\<close>

datatype path = Repo_Root | Slash path string

definition BASE_DIR :: path where
  "BASE_DIR = Slash Repo_Root ''public''"

definition OUTPUT_DIRS :: "string \<rightharpoonup> path" where
  "OUTPUT_DIRS =
     [''svg'' \<mapsto> Slash BASE_DIR ''crystals'',
      ''stl'' \<mapsto> Slash (Slash BASE_DIR ''models'') ''stl'',
      ''gltf'' \<mapsto> Slash (Slash BASE_DIR ''models'') ''gltf'',
      ''obj'' \<mapsto> Slash (Slash BASE_DIR ''models'') ''obj'']"

text \<open>\<open>OUTPUT_DIR\<close> of generate-crystal-assets.py.\<close>

definition OUTPUT_DIR :: path where
  "OUTPUT_DIR = Slash (Slash Repo_Root ''public'') ''crystals''"

text \<open>
  What \<open>get_preset(name)\<close> of the mineral database hands to generate-all-assets.py:
  \<open>None\<close>, a dict (its values strings or \<open>None\<close>), or an object, given by the value of
  its \<open>cdl\<close> attribute (\<open>None\<close> also when the object has no such attribute).
\<close>

datatype preset =
    No_Preset
  | Dict_Preset "(string \<times> string option) list"
  | Object_Preset "string option"

text \<open>
  \<^verbatim>\<open>cdl = preset.get("cdl") if isinstance(preset, dict) else getattr(preset, "cdl", None)\<close>
\<close>

definition preset_cdl :: "preset \<Rightarrow> string option" where
  "preset_cdl p =
     (case p of
        Dict_Preset d \<Rightarrow> (case map_of d ''cdl'' of None \<Rightarrow> None | Some v \<Rightarrow> v)
      | Object_Preset c \<Rightarrow> c
      | No_Preset \<Rightarrow> None)"

text \<open>\<open>not preset\<close>: \<open>None\<close> and the empty dict are false, an object is true.\<close>

definition not_preset :: "preset \<Rightarrow> bool" where
  "not_preset p = (case p of No_Preset \<Rightarrow> True | Dict_Preset d \<Rightarrow> d = [] | Object_Preset c \<Rightarrow> False)"

text \<open>\<open>not cdl\<close>: \<open>None\<close> and the empty string are false.\<close>

definition not_cdl :: "string option \<Rightarrow> bool" where
  "not_cdl c = (case c of None \<Rightarrow> True | Some s \<Rightarrow> s = [])"

text \<open>
  generate-crystal-assets.py reads the description as the attribute \<open>preset.cdl\<close>: its
  preset is \<open>None\<close> or an object with that attribute, a string or \<open>None\<close>.
\<close>

datatype svg_preset = Svg_No_Preset | Svg_Preset "string option"

text \<open>The exceptions that leave a function of the scripts.\<close>

datatype exc = SystemExit nat | ImportError | KeyError string

text \<open>
  The lines the scripts print, one constructor per \<open>print\<close> call, with the values that
  are formatted into the line.
\<close>

datatype event =
    Missing_Package
  | Invalid_Formats "string list"
  | Uncaught exc
  | Generating nat
  | Formats_Line "string list"
  | Output_Base path
  | Rule
  | Skip_Line nat nat string
  | Preset_Line nat nat string
  | Ok_Line string string
  | Format_Error string string
  | Geometry_Error string
  | Summary
  | Summary_Line string nat nat
  | Failed_Names "string list" bool
  | Svg_Ok_Line nat nat string string
  | Svg_Fail_Line nat nat string string
  | Generated nat nat
  | Failed_Count nat
  | Failed_Item string string
  | Not_Found_Notice
  | Placeholder_Banner nat
  | Placeholder_Ok nat nat string
  | Placeholder_Generated nat
  | Placeholder_Note

section \<open>generate-all-assets.py\<close>

text \<open>
  The external packages are parameters of the model. A call that raises an
  \<open>Exception\<close> returns \<open>Inl\<close> of its message; an exporter that returns has written
  its file at the path it was given. \<open>cdl_to_geometry\<close> stands for the geometry builder
  together with the conversion of its result to arrays (lines 82 to 87), whose value is
  the geometry buffer \<open>'g\<close>. \<open>numpy_ok\<close> and \<open>packages_ok\<close> say whether the import of
  line 20 and the imports of lines 40 to 45 succeed. The calls outside the \<open>try\<close> blocks
  (\<open>list_presets\<close>, \<open>get_preset\<close>, \<open>mkdir\<close>) return; the exceptions of an exporter, the
  parser and the geometry builder are of class \<open>Exception\<close>, which the \<open>except\<close> clauses
  catch.
\<close>

record ('d, 'g) env =
  numpy_ok :: bool
  packages_ok :: bool
  list_presets :: "string list"
  get_preset :: "string \<Rightarrow> preset"
  parse_cdl :: "string \<Rightarrow> string + 'd"
  cdl_to_geometry :: "'d \<Rightarrow> string + 'g"
  generate_geometry_svg :: "'g \<Rightarrow> path \<Rightarrow> string + unit"
  export_stl :: "'g \<Rightarrow> path \<Rightarrow> string + unit"
  export_gltf :: "'g \<Rightarrow> path \<Rightarrow> string \<Rightarrow> string + unit"
  export_obj :: "'g \<Rightarrow> path \<Rightarrow> string \<Rightarrow> string + unit"

text \<open>\<open>stats[fmt]\<close>: \<open>{"success": 0, "failed": []}\<close>.\<close>

record stat =
  success :: nat
  failed :: "string list"

text \<open>
  The state of a run: the directories made, the files written (each with the preset it
  was written for), the statistics and the printed lines.
\<close>

record state =
  dirs :: "path list"
  files :: "(string \<times> path) list"
  stats :: "string \<rightharpoonup> stat"
  out :: "event list"

definition initial :: state where
  "initial = \<lparr>dirs = [], files = [], stats = Map.empty, out = []\<rparr>"

text \<open>
  \<open>stats[fmt]["success"] += 1\<close> and \<open>stats[fmt]["failed"].append(name)\<close>. The dict
  has a key for every requested format, so the lookup finds one.
\<close>

definition record_success :: "string \<Rightarrow> (string \<rightharpoonup> stat) \<Rightarrow> (string \<rightharpoonup> stat)" where
  "record_success fmt m =
     (case m fmt of None \<Rightarrow> m | Some s \<Rightarrow> m(fmt \<mapsto> s\<lparr>success := success s + 1\<rparr>))"

definition record_failed :: "string \<Rightarrow> string \<Rightarrow> (string \<rightharpoonup> stat) \<Rightarrow> (string \<rightharpoonup> stat)" where
  "record_failed fmt name m =
     (case m fmt of None \<Rightarrow> m | Some s \<Rightarrow> m(fmt \<mapsto> s\<lparr>failed := failed s @ [name]\<rparr>))"

text \<open>
  \<open>OUTPUT_DIRS[fmt] / file\<close> followed by the exporter's call on that path: the path
  when the exporter returns, the message when something raises.
\<close>

definition export_to :: "string \<Rightarrow> string \<Rightarrow> (path \<Rightarrow> string + unit) \<Rightarrow> string + path" where
  "export_to fmt file exporter =
     (case OUTPUT_DIRS fmt of
        None \<Rightarrow> Inl ''KeyError''
      | Some d \<Rightarrow> (case exporter (Slash d file) of Inl e \<Rightarrow> Inl e | Inr u \<Rightarrow> Inr (Slash d file)))"

text \<open>
  The \<open>if\<close>/\<open>elif\<close> chain in the loop over the formats (lines 92 to 127): it picks
  the exporter and gives the label and the file name that are printed, with the result
  of the call. A format that matches no branch gives nothing.
\<close>

definition export_branch ::
  "('d, 'g) env \<Rightarrow> 'g \<Rightarrow> string \<Rightarrow> string \<Rightarrow> string \<Rightarrow> (string \<times> string \<times> (string + path)) option" where
  "export_branch env geom name filename fmt =
     (if fmt = ''svg'' then
        Some (''SVG'', filename @ ''.svg'',
          export_to fmt (filename @ ''.svg'') (generate_geometry_svg env geom))
      else if fmt = ''stl'' then
        Some (''STL'', filename @ ''.stl'',
          export_to fmt (filename @ ''.stl'') (export_stl env geom))
      else if fmt = ''gltf'' then
        Some (''glTF'', filename @ ''.glb'',
          export_to fmt (filename @ ''.glb'') (\<lambda>p. export_gltf env geom p name))
      else if fmt = ''obj'' then
        Some (''OBJ'', filename @ ''.obj'',
          export_to fmt (filename @ ''.obj'') (\<lambda>p. export_obj env geom p name))
      else None)"

text \<open>
  The body of the loop over the formats (lines 90 to 131): the \<open>try\<close> around the chain
  counts a success when the exporter returns and turns an exception into an entry of
  the format's failed list.
\<close>

definition export_format ::
  "('d, 'g) env \<Rightarrow> 'g \<Rightarrow> string \<Rightarrow> string \<Rightarrow> string \<Rightarrow> state \<Rightarrow> state" where
  "export_format env geom name filename fmt st =
     (case export_branch env geom name filename fmt of
        None \<Rightarrow> st
      | Some (label, file, Inr p) \<Rightarrow>
          st\<lparr>files := files st @ [(name, p)],
             stats := record_success fmt (stats st),
             out := out st @ [Ok_Line label file]\<rparr>
      | Some (label, file, Inl e) \<Rightarrow>
          st\<lparr>stats := record_failed fmt name (stats st),
             out := out st @ [Format_Error fmt e]\<rparr>)"

fun format_loop ::
  "('d, 'g) env \<Rightarrow> 'g \<Rightarrow> string \<Rightarrow> string \<Rightarrow> string list \<Rightarrow> state \<Rightarrow> state" where
  "format_loop env geom name filename [] st = st"
| "format_loop env geom name filename (fmt # fmts) st =
     format_loop env geom name filename fmts (export_format env geom name filename fmt st)"

text \<open>The handler of the outer \<open>try\<close> (lines 133 to 136).\<close>

fun fail_all :: "string list \<Rightarrow> string \<Rightarrow> (string \<rightharpoonup> stat) \<Rightarrow> (string \<rightharpoonup> stat)" where
  "fail_all [] name m = m"
| "fail_all (fmt # fmts) name m = fail_all fmts name (record_failed fmt name m)"

definition geometry_error :: "string list \<Rightarrow> string \<Rightarrow> string \<Rightarrow> state \<Rightarrow> state" where
  "geometry_error formats name e st =
     st\<lparr>stats := fail_all formats name (stats st), out := out st @ [Geometry_Error e]\<rparr>"

text \<open>Parsing the description and building the geometry buffer (lines 81 to 87).\<close>

definition build_geometry :: "('d, 'g) env \<Rightarrow> string \<Rightarrow> string + 'g" where
  "build_geometry env cdl =
     (case parse_cdl env cdl of Inl e \<Rightarrow> Inl e | Inr desc \<Rightarrow> cdl_to_geometry env desc)"

text \<open>
  One turn of the loop over the presets (lines 70 to 136), for the preset \<open>name\<close> at
  position \<open>i\<close> of \<open>tot\<close>.
\<close>

definition process_preset ::
  "('d, 'g) env \<Rightarrow> string list \<Rightarrow> nat \<Rightarrow> nat \<Rightarrow> string \<Rightarrow> state \<Rightarrow> state" where
  "process_preset env formats tot i name st =
     (let preset = get_preset env name;
          cdl = preset_cdl preset
      in if not_preset preset \<or> not_cdl cdl then
           st\<lparr>out := out st @ [Skip_Line i tot name]\<rparr>
         else
           let filename = normalize_filename name;
               st1 = st\<lparr>out := out st @ [Preset_Line i tot name]\<rparr>
           in case build_geometry env (case cdl of None \<Rightarrow> [] | Some c \<Rightarrow> c) of
                Inl e \<Rightarrow> geometry_error formats name e st1
              | Inr geom \<Rightarrow> format_loop env geom name filename formats st1)"

fun preset_loop ::
  "('d, 'g) env \<Rightarrow> string list \<Rightarrow> nat \<Rightarrow> nat \<Rightarrow> string list \<Rightarrow> state \<Rightarrow> state" where
  "preset_loop env formats tot i [] st = st"
| "preset_loop env formats tot i (name # names) st =
     preset_loop env formats tot (Suc i) names (process_preset env formats tot i name st)"

text \<open>
  \<^verbatim>\<open>for fmt in formats: OUTPUT_DIRS[fmt].mkdir(parents=True, exist_ok=True)\<close>
\<close>

fun make_dirs :: "string list \<Rightarrow> state \<Rightarrow> exc option \<times> state" where
  "make_dirs [] st = (None, st)"
| "make_dirs (fmt # fmts) st =
     (case OUTPUT_DIRS fmt of
        None \<Rightarrow> (Some (KeyError fmt), st)
      | Some d \<Rightarrow> make_dirs fmts (st\<lparr>dirs := dirs st @ [d]\<rparr>))"

text \<open>
  \<^verbatim>\<open>if preset_filter: presets = [p for p in presets if preset_filter.lower() in p.lower()]\<close>
\<close>

definition select_presets :: "string option \<Rightarrow> string list \<Rightarrow> string list" where
  "select_presets preset_filter presets =
     (case preset_filter of
        None \<Rightarrow> presets
      | Some f \<Rightarrow>
          if f = [] then presets
          else filter (\<lambda>p. str_contains (lower f) (lower p)) presets)"

text \<open>\<open>{fmt: {"success": 0, "failed": []} for fmt in formats}\<close>\<close>

definition init_stats :: "string list \<Rightarrow> (string \<rightharpoonup> stat)" where
  "init_stats formats = map_of (map (\<lambda>fmt. (fmt, \<lparr>success = 0, failed = []\<rparr>)) formats)"

text \<open>The summary (lines 141 to 145).\<close>

definition summary_of :: "nat \<Rightarrow> (string \<rightharpoonup> stat) \<Rightarrow> string \<Rightarrow> event list" where
  "summary_of tot m fmt =
     (case m fmt of
        None \<Rightarrow> []
      | Some s \<Rightarrow>
          Summary_Line fmt (success s) tot #
          (if failed s \<noteq> [] then [Failed_Names (take 5 (failed s)) (5 < length (failed s))]
           else []))"

definition generate_assets ::
  "('d, 'g) env \<Rightarrow> string list \<Rightarrow> string option \<Rightarrow> exc option \<times> state" where
  "generate_assets env formats preset_filter =
     (if \<not> packages_ok env then
        (Some (SystemExit 1), initial\<lparr>out := [Missing_Package]\<rparr>)
      else
        case make_dirs formats initial of
          (Some e, st) \<Rightarrow> (Some e, st)
        | (None, st) \<Rightarrow>
            let presets = select_presets preset_filter (list_presets env);
                tot = length presets;
                st0 = st\<lparr>stats := init_stats formats,
                        out := [Generating tot, Formats_Line formats, Output_Base BASE_DIR, Rule]\<rparr>;
                st1 = preset_loop env formats tot 1 presets st0
            in (None, st1\<lparr>out := out st1 @ [Rule, Summary] @
                                   concat (map (summary_of tot (stats st1)) formats)\<rparr>))"

text \<open>
  The script run as a program, with the value of \<open>--formats\<close> and of \<open>--preset\<close>
  (\<open>None\<close> when the option is not given): the exit status and the final state.
\<close>

definition valid_formats :: "string list" where
  "valid_formats = [''svg'', ''stl'', ''gltf'', ''obj'']"

definition parse_formats :: "string option \<Rightarrow> string list" where
  "parse_formats arg =
     map (\<lambda>f. lower (strip f))
       (split_on (CHR '','') (case arg of None \<Rightarrow> ''svg,stl,gltf,obj'' | Some a \<Rightarrow> a))"

definition main :: "('d, 'g) env \<Rightarrow> string option \<Rightarrow> string option \<Rightarrow> nat \<times> state" where
  "main env formats_arg preset_arg =
     (if \<not> numpy_ok env then (1, initial\<lparr>out := [Uncaught ImportError]\<rparr>)
      else
        let formats = parse_formats formats_arg;
            invalid = filter (\<lambda>f. f \<notin> set valid_formats) formats
        in if invalid \<noteq> [] then (1, initial\<lparr>out := [Invalid_Formats (remdups invalid)]\<rparr>)
           else
             case generate_assets env formats preset_arg of
               (None, st) \<Rightarrow> (0, st)
             | (Some (SystemExit n), st) \<Rightarrow> (n, st)
             | (Some e, st) \<Rightarrow> (1, st\<lparr>out := out st @ [Uncaught e]\<rparr>))"

section \<open>generate-crystal-assets.py\<close>

text \<open>
  The packages this script imports, as parameters in the same way. \<open>svg_packages_ok\<close>
  says whether the imports of lines 25 to 28 succeed.
\<close>

record ('d, 'g) svg_env =
  svg_packages_ok :: bool
  svg_list_presets :: "string list"
  svg_get_preset :: "string \<Rightarrow> svg_preset"
  svg_parse_cdl :: "string \<Rightarrow> string + 'd"
  svg_cdl_to_geometry :: "'d \<Rightarrow> string + 'g"
  generate_svg :: "'g \<Rightarrow> path \<Rightarrow> string + unit"

text \<open>
  The state of a run of this script: the directories made, the files the renderer wrote
  (each with its preset), the files the script wrote itself (each with its text), the
  counter \<open>success\<close>, the list \<open>failed\<close> and the printed lines.
\<close>

record svg_state =
  svg_dirs :: "path list"
  svg_rendered :: "(string \<times> path) list"
  svg_written :: "(path \<times> string) list"
  svg_success :: nat
  svg_failed :: "(string \<times> string) list"
  svg_out :: "event list"

definition svg_initial :: svg_state where
  "svg_initial =
     \<lparr>svg_dirs = [], svg_rendered = [], svg_written = [], svg_success = 0, svg_failed = [],
      svg_out = []\<rparr>"

text \<open>\<open>not preset or not preset.cdl\<close>\<close>

definition svg_skip :: "svg_preset \<Rightarrow> bool" where
  "svg_skip p = (case p of Svg_No_Preset \<Rightarrow> True | Svg_Preset c \<Rightarrow> not_cdl c)"

text \<open>One turn of the loop over the presets (lines 48 to 86).\<close>

definition svg_process_preset ::
  "('d, 'g) svg_env \<Rightarrow> nat \<Rightarrow> nat \<Rightarrow> string \<Rightarrow> svg_state \<Rightarrow> svg_state" where
  "svg_process_preset env tot i name st =
     (let preset = svg_get_preset env name
      in if svg_skip preset then
           st\<lparr>svg_out := svg_out st @ [Skip_Line i tot name]\<rparr>
         else
           let filename = svg_filename name;
               output_path = Slash OUTPUT_DIR (filename @ ''.svg'');
               cdl = (case preset of Svg_Preset (Some c) \<Rightarrow> c | _ \<Rightarrow> []);
               fail = (\<lambda>e. st\<lparr>svg_failed := svg_failed st @ [(name, e)],
                                svg_out := svg_out st @ [Svg_Fail_Line i tot name e]\<rparr>)
           in case svg_parse_cdl env cdl of
                Inl e \<Rightarrow> fail e
              | Inr desc \<Rightarrow>
                  (case svg_cdl_to_geometry env desc of
                     Inl e \<Rightarrow> fail e
                   | Inr geom \<Rightarrow>
                       (case generate_svg env geom output_path of
                          Inl e \<Rightarrow> fail e
                        | Inr u \<Rightarrow>
                            st\<lparr>svg_rendered := svg_rendered st @ [(name, output_path)],
                               svg_success := svg_success st + 1,
                               svg_out := svg_out st @
                                 [Svg_Ok_Line i tot name (filename @ ''.svg'')]\<rparr>)))"

fun svg_loop ::
  "('d, 'g) svg_env \<Rightarrow> nat \<Rightarrow> nat \<Rightarrow> string list \<Rightarrow> svg_state \<Rightarrow> svg_state" where
  "svg_loop env tot i [] st = st"
| "svg_loop env tot i (name # names) st =
     svg_loop env tot (Suc i) names (svg_process_preset env tot i name st)"

text \<open>\<open>generate_assets()\<close> of generate-crystal-assets.py.\<close>

definition svg_generate_assets :: "('d, 'g) svg_env \<Rightarrow> exc option \<times> svg_state" where
  "svg_generate_assets env =
     (if \<not> svg_packages_ok env then
        (Some (SystemExit 1), svg_initial\<lparr>svg_out := [Missing_Package]\<rparr>)
      else
        let presets = svg_list_presets env;
            tot = length presets;
            st0 = svg_initial\<lparr>svg_dirs := [OUTPUT_DIR],
                              svg_out := [Generating tot, Output_Base OUTPUT_DIR, Rule]\<rparr>;
            st1 = svg_loop env tot 1 presets st0
        in (None, st1\<lparr>svg_out := svg_out st1 @ [Rule, Generated (svg_success st1) tot] @
               (if svg_failed st1 \<noteq> [] then
                  Failed_Count (length (svg_failed st1)) #
                  map (\<lambda>(name, error). Failed_Item name error) (svg_failed st1)
                else [])\<rparr>))"

text \<open>\<open>generate_placeholder_svg(name)\<close>: the text of its f-string.\<close>

definition generate_placeholder_svg :: "string \<Rightarrow> string" where
  \<open>generate_placeholder_svg name = ''<svg viewBox="-150 -150 300 300" xmlns="http://www.w3.org/2000/svg">
  <defs>
    <linearGradient id="face1" x1="0%" y1="0%" x2="100%" y2="100%">
      <stop offset="0%" style="stop-color:#0ea5e9;stop-opacity:0.8" />
      <stop offset="100%" style="stop-color:#0284c7;stop-opacity:0.9" />
    </linearGradient>
    <linearGradient id="face2" x1="0%" y1="0%" x2="100%" y2="100%">
      <stop offset="0%" style="stop-color:#38bdf8;stop-opacity:0.7" />
      <stop offset="100%" style="stop-color:#0ea5e9;stop-opacity:0.8" />
    </linearGradient>
  </defs>
  <polygon points="0,-100 -80,0 0,100" fill="url(#face2)" stroke="#0369a1" stroke-width="1.5" opacity="0.6"/>
  <polygon points="0,-100 0,100 80,0" fill="url(#face1)" stroke="#0369a1" stroke-width="1.5" opacity="0.7"/>
  <polygon points="0,-100 -80,0 80,0" fill="url(#face1)" stroke="#0369a1" stroke-width="2"/>
  <polygon points="0,100 -80,0 80,0" fill="url(#face2)" stroke="#0369a1" stroke-width="2"/>
</svg>''\<close>

text \<open>The list \<open>minerals\<close> of \<open>generate_placeholder_assets\<close>.\<close>

definition minerals :: "string list" where
  "minerals =
     [''alexandrite'', ''almandine'', ''amazonite'', ''amethyst'', ''andalusite'',
      ''apatite'', ''aquamarine'', ''beryl'', ''calcite'', ''carnelian'',
      ''chrysoberyl'', ''chrysoprase'', ''citrine'', ''demantoid'', ''diamond'',
      ''diopside'', ''emerald'', ''epidote'', ''fluorite'', ''garnet'',
      ''grossular'', ''heliodor'', ''hessonite'', ''hiddenite'', ''iolite'',
      ''jadeite'', ''kunzite'', ''kyanite'', ''labradorite'', ''lapis-lazuli'',
      ''malachite'', ''moonstone'', ''morganite'', ''nephrite'', ''opal'',
      ''orthoclase'', ''peridot'', ''pyrope'', ''quartz'', ''rhodolite'',
      ''ruby'', ''sapphire'', ''scapolite'', ''sphene'', ''spessartine'',
      ''spinel'', ''spodumene'', ''sunstone'', ''tanzanite'', ''topaz'',
      ''tourmaline'', ''tsavorite'', ''turquoise'', ''zircon'', ''zoisite'',
      ''rose-quartz'', ''smoky-quartz'', ''star-ruby'', ''star-sapphire'', ''cats-eye-chrysoberyl'',
      ''padparadscha'', ''paraiba-tourmaline'', ''watermelon-tourmaline'', ''rubellite'', ''indicolite'',
      ''pyrite'', ''magnetite'', ''galena'', ''corundum'', ''hematite'',
      ''cinnabar'', ''rutile'', ''cassiterite'', ''vesuvianite'', ''olivine'',
      ''barite'', ''celestine'', ''gypsum'', ''realgar'', ''orpiment'']"

text \<open>The loop of \<open>generate_placeholder_assets\<close> (lines 157 to 164).\<close>

fun placeholder_loop :: "nat \<Rightarrow> nat \<Rightarrow> string list \<Rightarrow> svg_state \<Rightarrow> svg_state" where
  "placeholder_loop tot i [] st = st"
| "placeholder_loop tot i (name # names) st =
     placeholder_loop tot (Suc i) names
       (let output_path = Slash OUTPUT_DIR (name @ ''.svg'');
            svg_content = generate_placeholder_svg name
        in st\<lparr>svg_written := svg_written st @ [(output_path, svg_content)],
              svg_out := svg_out st @ [Placeholder_Ok i tot (name @ ''.svg'')]\<rparr>)"

definition generate_placeholder_assets :: "svg_state \<Rightarrow> svg_state" where
  "generate_placeholder_assets st =
     (let n = length minerals;
          st0 = st\<lparr>svg_dirs := svg_dirs st @ [OUTPUT_DIR],
                    svg_out := svg_out st @ [Placeholder_Banner n, Output_Base OUTPUT_DIR, Rule]\<rparr>;
          st1 = placeholder_loop n 1 minerals st0
      in st1\<lparr>svg_out := svg_out st1 @ [Rule, Placeholder_Generated n, Placeholder_Note]\<rparr>)"

text \<open>
  The script run as a program, with the flag \<open>--placeholder\<close>: the exit status and the
  final state. \<open>SystemExit\<close> is no \<open>ImportError\<close>, so the handler of line 191 lets it
  pass.
\<close>

definition svg_main :: "('d, 'g) svg_env \<Rightarrow> bool \<Rightarrow> nat \<times> svg_state" where
  "svg_main env placeholder =
     (if placeholder then (0, generate_placeholder_assets svg_initial)
      else
        case svg_generate_assets env of
          (None, st) \<Rightarrow> (0, st)
        | (Some ImportError, st) \<Rightarrow>
            (0, generate_placeholder_assets (st\<lparr>svg_out := svg_out st @ [Not_Found_Notice]\<rparr>))
        | (Some (SystemExit n), st) \<Rightarrow> (n, st)
        | (Some e, st) \<Rightarrow> (1, st\<lparr>svg_out := svg_out st @ [Uncaught e]\<rparr>))"

section \<open>Reading a run\<close>


text \<open>
  The test of line 72 for the preset \<open>name\<close>, and the result of lines 81 to 87 for
  its description.
\<close>

definition no_description :: "('d, 'g) env \<Rightarrow> string \<Rightarrow> bool" where
  "no_description env name =
     (not_preset (get_preset env name) \<or> not_cdl (preset_cdl (get_preset env name)))"

definition geometry_of :: "('d, 'g) env \<Rightarrow> string \<Rightarrow> string + 'g" where
  "geometry_of env name =
     build_geometry env (case preset_cdl (get_preset env name) of None \<Rightarrow> [] | Some c \<Rightarrow> c)"

text \<open>
  What the turns of one format, \<open>k\<close> of them, do to the entry of that format, from the
  result \<open>b\<close> of its branch.
\<close>

definition turn :: "(string \<times> string \<times> (string + path)) option \<Rightarrow> string \<Rightarrow> nat \<Rightarrow> stat \<Rightarrow> stat" where
  "turn b name k s =
     (case b of
        None \<Rightarrow> s
      | Some (label, file, Inr p) \<Rightarrow> s\<lparr>success := success s + k\<rparr>
      | Some (label, file, Inl e) \<Rightarrow> s\<lparr>failed := failed s @ replicate k name\<rparr>)"

text \<open>The file one format's turn writes.\<close>

definition written :: "(string \<times> string \<times> (string + path)) option \<Rightarrow> string \<Rightarrow> (string \<times> path) list" where
  "written b name =
     (case b of Some (label, file, Inr p) \<Rightarrow> [(name, p)] | _ \<Rightarrow> [])"

text \<open>\<open>stats[fmt]["failed"]\<close> in a state, empty when the dict has no such key.\<close>

definition failed_for :: "state \<Rightarrow> string \<Rightarrow> string list" where
  "failed_for st fmt = (case stats st fmt of None \<Rightarrow> [] | Some s \<Rightarrow> failed s)"

text \<open>How often \<open>needle\<close> starts in \<open>hay\<close>.\<close>

fun occurrences :: "string \<Rightarrow> string \<Rightarrow> nat" where
  "occurrences needle [] = 0"
| "occurrences needle (h # hs) =
     (if starts_with needle (h # hs) then 1 else 0) + occurrences needle hs"

section \<open>A small database\<close>

text \<open>
  Five presets on which the theorems below are run: \<open>Opal\<close> is not in the database,
  \<open>Jade\<close> is a dict without a description, the description of \<open>Ruby\<close> does not
  parse, and the glTF exporter fails on \<open>Quartz\<close>. Descriptions and geometry buffers are
  strings here.
\<close>

definition demo_env :: "(string, string) env" where
  "demo_env =
     \<lparr>numpy_ok = True,
      packages_ok = True,
      list_presets = [''Quartz'', ''Opal'', ''Rose Quartz'', ''Ruby'', ''Jade''],
      get_preset = (\<lambda>n. if n = ''Opal'' then No_Preset
                         else if n = ''Jade'' then Dict_Preset [(''name'', Some ''Jade'')]
                         else Object_Preset (Some (''cdl of '' @ n))),
      parse_cdl = (\<lambda>c. if c = ''cdl of Ruby'' then Inl ''no parse'' else Inr c),
      cdl_to_geometry = (\<lambda>d. Inr d),
      generate_geometry_svg = (\<lambda>g p. Inr ()),
      export_stl = (\<lambda>g p. Inr ()),
      export_gltf = (\<lambda>g p n. if n = ''Quartz'' then Inl ''no mesh'' else Inr ()),
      export_obj = (\<lambda>g p n. Inr ())\<rparr>"


section \<open>Facts about the string functions\<close>




lemma replace_char_remove: "replace_char c [] s = filter (\<lambda>x. x \<noteq> c) s"
  by (induction s) (simp_all add: replace_char_def)

lemma replace_char_single: "replace_char c [d] s = map (\<lambda>x. if x = c then d else x) s"
  by (induction s) (simp_all add: replace_char_def)







lemma normalize_filename_filter_map:
  "normalize_filename name =
     filter (\<lambda>c. c \<noteq> CHR 0x27 \<and> c \<noteq> CHR ''('' \<and> c \<noteq> CHR '')'')
       (map (\<lambda>c. if c = CHR '' '' then CHR ''-'' else c) (lower name))"
  by (simp add: normalize_filename_def replace_char_remove replace_char_single conj_commute conj_left_commute)

section \<open>Facts about the loops\<close>


lemma process_preset_cases:
  "process_preset env formats tot i name st =
     (if no_description env name then st\<lparr>out := out st @ [Skip_Line i tot name]\<rparr>
      else case geometry_of env name of
             Inl e \<Rightarrow> geometry_error formats name e (st\<lparr>out := out st @ [Preset_Line i tot name]\<rparr>)
           | Inr geom \<Rightarrow> format_loop env geom name (normalize_filename name) formats
               (st\<lparr>out := out st @ [Preset_Line i tot name]\<rparr>))"
  by (simp add: process_preset_def no_description_def geometry_of_def Let_def)

lemma record_success_apply:
  "record_success fmt m f =
     (if f = fmt then map_option (\<lambda>s. s\<lparr>success := success s + 1\<rparr>) (m f) else m f)"
  by (simp add: record_success_def split: option.split)

lemma record_failed_apply:
  "record_failed fmt name m f =
     (if f = fmt then map_option (\<lambda>s. s\<lparr>failed := failed s @ [name]\<rparr>) (m f) else m f)"
  by (simp add: record_failed_def split: option.split)

lemma fail_all_apply:
  "fail_all formats name m f =
     map_option (\<lambda>s. s\<lparr>failed := failed s @ replicate (count_list formats f) name\<rparr>) (m f)"
proof (induction formats arbitrary: m)
  case Nil
  show ?case by (cases "m f") simp_all
next
  case (Cons fmt formats)
  show ?case
    by (cases "m f") (auto simp add: Cons.IH record_failed_apply replicate_append_same)
qed

lemma export_format_stats:
  "stats (export_format env geom name filename fmt st) f =
     (if f = fmt then map_option (turn (export_branch env geom name filename fmt) name 1) (stats st f)
      else stats st f)"
  by (cases "stats st f")
    (auto simp add: export_format_def turn_def record_success_apply record_failed_apply
      split: option.split sum.split prod.split)

lemma turn_turn:
  "turn b name k (turn b name j s) = turn b name (j + k) s"
  by (auto simp add: turn_def replicate_add split: option.split sum.split prod.split)

lemma turn_0: "turn b name 0 s = s"
  by (auto simp add: turn_def split: option.split sum.split prod.split)

lemma format_loop_stats:
  "stats (format_loop env geom name filename formats st) f =
     map_option (turn (export_branch env geom name filename f) name (count_list formats f)) (stats st f)"
proof (induction formats arbitrary: st)
  case Nil
  show ?case by (cases "stats st f") (simp_all add: turn_0)
next
  case (Cons fmt formats)
  show ?case
    by (cases "stats st f") (auto simp add: Cons.IH export_format_stats turn_turn)
qed


lemma export_format_files:
  "files (export_format env geom name filename fmt st) =
     files st @ written (export_branch env geom name filename fmt) name"
  by (simp add: export_format_def written_def split: option.split sum.split prod.split)

lemma format_loop_files:
  "files (format_loop env geom name filename formats st) =
     files st @ concat (map (\<lambda>fmt. written (export_branch env geom name filename fmt) name) formats)"
  by (induction formats arbitrary: st) (simp_all add: export_format_files)

lemma export_format_dirs: "dirs (export_format env geom name filename fmt st) = dirs st"
  by (simp add: export_format_def split: option.split sum.split prod.split)

lemma format_loop_dirs: "dirs (format_loop env geom name filename formats st) = dirs st"
  by (induction formats arbitrary: st) (simp_all add: export_format_dirs)





lemma process_preset_dirs: "dirs (process_preset env formats tot i name st) = dirs st"
  by (simp add: process_preset_cases geometry_error_def format_loop_dirs split: sum.split)

lemma preset_loop_dirs: "dirs (preset_loop env formats tot i names st) = dirs st"
  by (induction names arbitrary: i st) (simp_all add: process_preset_dirs)

lemma process_preset_files:
  "files (process_preset env formats tot i name st) =
     files st @
     (if no_description env name then []
      else case geometry_of env name of
             Inl e \<Rightarrow> []
           | Inr geom \<Rightarrow>
               concat (map (\<lambda>fmt. written (export_branch env geom name (normalize_filename name) fmt) name)
                 formats))"
  by (simp add: process_preset_cases geometry_error_def format_loop_files split: sum.split)

lemma written_name: "x \<in> set (written b name) \<Longrightarrow> fst x = name"
  by (auto simp add: written_def split: option.splits sum.splits prod.splits)

lemma process_preset_files_name:
  assumes "x \<in> set (files (process_preset env formats tot i name st))"
  shows "x \<in> set (files st) \<or>
         (fst x = name \<and> \<not> no_description env name \<and> (\<exists>geom. geometry_of env name = Inr geom))"
  using assms
  by (cases "geometry_of env name")
    (auto simp add: process_preset_files dest: written_name split: if_splits)

lemma preset_loop_files_name:
  assumes "x \<in> set (files (preset_loop env formats tot i names st))"
  shows "x \<in> set (files st) \<or>
         (fst x \<in> set names \<and> \<not> no_description env (fst x) \<and> (\<exists>geom. geometry_of env (fst x) = Inr geom))"
  using assms
proof (induction names arbitrary: i st)
  case Nil
  then show ?case by simp
next
  case (Cons name names)
  from Cons.IH [OF Cons.prems [simplified]] show ?case
    using process_preset_files_name [of x env formats tot i name st] by auto
qed

text \<open>The entry of a format after a preset's turn.\<close>

lemma process_preset_stats:
  "stats (process_preset env formats tot i name st) f =
     (if no_description env name then stats st f
      else case geometry_of env name of
             Inl e \<Rightarrow>
               map_option (\<lambda>s. s\<lparr>failed := failed s @ replicate (count_list formats f) name\<rparr>)
                 (stats st f)
           | Inr geom \<Rightarrow>
               map_option
                 (turn (export_branch env geom name (normalize_filename name) f) name
                    (count_list formats f))
                 (stats st f))"
  by (simp add: process_preset_cases geometry_error_def fail_all_apply format_loop_stats
      split: sum.split)

section \<open>Facts about selection and the placeholder path\<close>

lemma placeholder_loop_written:
  "svg_written (placeholder_loop tot i names st) =
     svg_written st @ map (\<lambda>n. (Slash OUTPUT_DIR (n @ ''.svg''), generate_placeholder_svg a)) names"
  by (induction names arbitrary: i st) (simp_all add: generate_placeholder_svg_def)



lemma placeholder_polygons: "occurrences ''<polygon '' (generate_placeholder_svg []) = 4"
  by code_simp

section \<open>Facts about a whole run\<close>

lemma OUTPUT_DIRS_valid: "f \<in> set valid_formats \<Longrightarrow> \<exists>d. OUTPUT_DIRS f = Some d"
  by (auto simp add: valid_formats_def OUTPUT_DIRS_def)

lemma make_dirs_valid:
  "set formats \<subseteq> set valid_formats \<Longrightarrow>
   \<exists>ds. make_dirs formats st = (None, st\<lparr>dirs := dirs st @ ds\<rparr>)"
proof (induction formats arbitrary: st)
  case Nil
  have "make_dirs [] st = (None, st\<lparr>dirs := dirs st @ []\<rparr>)" by simp
  then show ?case by blast
next
  case (Cons f formats)
  then obtain d where d: "OUTPUT_DIRS f = Some d"
    using OUTPUT_DIRS_valid [of f] by auto
  from Cons obtain ds where
    "make_dirs formats (st\<lparr>dirs := dirs st @ [d]\<rparr>) =
       (None, st\<lparr>dirs := dirs st @ [d]\<rparr>\<lparr>dirs := dirs (st\<lparr>dirs := dirs st @ [d]\<rparr>) @ ds\<rparr>)"
    by (metis set_subset_Cons subset_trans)
  then have "make_dirs (f # formats) st = (None, st\<lparr>dirs := dirs st @ ([d] @ ds)\<rparr>)"
    using d by simp
  then show ?case by blast
qed



text \<open>A run that gets past the imports and the directories.\<close>

lemma generate_assets_valid:
  assumes "packages_ok env" and "set formats \<subseteq> set valid_formats"
  shows "\<exists>ds. generate_assets env formats pf =
    (let presets = select_presets pf (list_presets env);
         st1 = preset_loop env formats (length presets) 1 presets
                 (initial\<lparr>dirs := ds, stats := init_stats formats,
                    out := [Generating (length presets), Formats_Line formats, Output_Base BASE_DIR, Rule]\<rparr>)
     in (None, st1\<lparr>out := out st1 @ [Rule, Summary] @
                concat (map (summary_of (length presets) (stats st1)) formats)\<rparr>))"
proof -
  obtain ds where "make_dirs formats initial = (None, initial\<lparr>dirs := dirs initial @ ds\<rparr>)"
    using make_dirs_valid [OF assms(2)] by blast
  then have "generate_assets env formats pf =
    (let presets = select_presets pf (list_presets env);
         st1 = preset_loop env formats (length presets) 1 presets
                 (initial\<lparr>dirs := ds, stats := init_stats formats,
                    out := [Generating (length presets), Formats_Line formats, Output_Base BASE_DIR, Rule]\<rparr>)
     in (None, st1\<lparr>out := out st1 @ [Rule, Summary] @
                concat (map (summary_of (length presets) (stats st1)) formats)\<rparr>))"
    using assms(1) by (simp add: generate_assets_def Let_def initial_def)
  then show ?thesis by blast
qed

lemma make_dirs_frame:
  "make_dirs formats st = (r, st') \<Longrightarrow>
   files st' = files st \<and> stats st' = stats st \<and> out st' = out st"
  by (induction formats arbitrary: st) (auto split: option.splits)






lemma turn_failed_mono: "set (failed s) \<subseteq> set (failed (turn b name k s))"
  by (auto simp add: turn_def split: option.split sum.split prod.split)


lemma process_preset_dom:
  "stats (process_preset env formats tot i name st) f = None \<longleftrightarrow> stats st f = None"
  by (simp add: process_preset_stats split: sum.split)

lemma preset_loop_dom:
  "stats (preset_loop env formats tot i names st) f = None \<longleftrightarrow> stats st f = None"
  by (induction names arbitrary: i st) (simp_all add: process_preset_dom)

lemma process_preset_failed_mono:
  "set (failed_for st f) \<subseteq> set (failed_for (process_preset env formats tot i name st) f)"
  using turn_failed_mono
  by (cases "stats st f")
    (auto simp add: failed_for_def process_preset_stats split: sum.split)

lemma preset_loop_failed_mono:
  "set (failed_for st f) \<subseteq> set (failed_for (preset_loop env formats tot i names st) f)"
proof (induction names arbitrary: i st)
  case Nil
  show ?case by simp
next
  case (Cons name names)
  show ?case
    using process_preset_failed_mono [of st f env formats tot i name]
      Cons.IH [of "process_preset env formats tot i name st" "Suc i"]
    by auto
qed



text \<open>A preset whose geometry fails enters the failed list of every requested format.\<close>

lemma process_preset_geometry_failed:
  assumes "\<not> no_description env name" and "geometry_of env name = Inl e"
    and "f \<in> set formats" and "stats st f \<noteq> None"
  shows "name \<in> set (failed_for (process_preset env formats tot i name st) f)"
proof -
  have "count_list formats f \<noteq> 0"
    using assms(3) by (simp add: count_list_0_iff)
  then have "0 < count_list formats f" by simp
  then show ?thesis
    using assms(1,2,4) by (auto simp add: failed_for_def process_preset_stats)
qed

lemma process_preset_export_failed:
  assumes "\<not> no_description env name" and "geometry_of env name = Inr geom"
    and "export_branch env geom name (normalize_filename name) f = Some (label, file, Inl e)"
    and "f \<in> set formats" and "stats st f \<noteq> None"
  shows "name \<in> set (failed_for (process_preset env formats tot i name st) f)"
proof -
  have "count_list formats f \<noteq> 0"
    using assms(4) by (simp add: count_list_0_iff)
  then have "0 < count_list formats f" by simp
  then show ?thesis
    using assms(1,2,3,5) by (auto simp add: failed_for_def process_preset_stats turn_def)
qed

lemma preset_loop_reaches:
  assumes "name \<in> set names"
    and step: "\<And>i st. stats st f \<noteq> None \<Longrightarrow>
       name \<in> set (failed_for (process_preset env formats tot i name st) f)"
    and "stats st f \<noteq> None"
  shows "name \<in> set (failed_for (preset_loop env formats tot i names st) f)"
  using assms(1,3)
proof (induction names arbitrary: i st)
  case Nil
  then show ?case by simp
next
  case (Cons n names)
  have dom: "stats (process_preset env formats tot i n st) f \<noteq> None"
    using Cons.prems(2) by (simp add: process_preset_dom)
  show ?case
  proof (cases "n = name")
    case True
    then have "name \<in> set (failed_for (process_preset env formats tot i n st) f)"
      using step [OF Cons.prems(2)] by simp
    then show ?thesis
      using preset_loop_failed_mono [of "process_preset env formats tot i n st" f env formats tot "Suc i" names]
      by auto
  next
    case False
    then have "name \<in> set names" using Cons.prems(1) by simp
    from Cons.IH [OF this dom] show ?thesis by simp
  qed
qed

lemma process_preset_files_mono:
  "set (files st) \<subseteq> set (files (process_preset env formats tot i name st))"
  by (simp add: process_preset_files)

lemma preset_loop_files_mono:
  "set (files st) \<subseteq> set (files (preset_loop env formats tot i names st))"
proof (induction names arbitrary: i st)
  case Nil
  show ?case by simp
next
  case (Cons name names)
  show ?case
    using process_preset_files_mono [of st env formats tot i name]
      Cons.IH [of "process_preset env formats tot i name st" "Suc i"]
    by auto
qed

lemma process_preset_file_written:
  assumes "\<not> no_description env name" and "geometry_of env name = Inr geom"
    and "export_branch env geom name (normalize_filename name) f = Some (label, file, Inr p)"
    and "f \<in> set formats"
  shows "(name, p) \<in> set (files (process_preset env formats tot i name st))"
  using assms by (auto simp add: process_preset_files written_def intro!: bexI [of _ f])

lemma preset_loop_file_written:
  assumes "name \<in> set names"
    and "\<not> no_description env name" and "geometry_of env name = Inr geom"
    and "export_branch env geom name (normalize_filename name) f = Some (label, file, Inr p)"
    and "f \<in> set formats"
  shows "(name, p) \<in> set (files (preset_loop env formats tot i names st))"
  using assms(1)
proof (induction names arbitrary: i st)
  case Nil
  then show ?case by simp
next
  case (Cons n names)
  show ?case
  proof (cases "n = name")
    case True
    then have "(name, p) \<in> set (files (process_preset env formats tot i n st))"
      using process_preset_file_written [OF assms(2-5)] by simp
    then show ?thesis
      using preset_loop_files_mono [of "process_preset env formats tot i n st" env formats tot "Suc i" names]
      by auto
  next
    case False
    then have "name \<in> set names" using Cons.prems by simp
    from Cons.IH [OF this] show ?thesis by simp
  qed
qed

lemma init_stats_dom: "init_stats formats f \<noteq> None \<longleftrightarrow> f \<in> set formats"
  by (simp add: init_stats_def map_of_eq_None_iff image_image)

lemma init_stats_failed: "init_stats formats f = Some s \<Longrightarrow> failed s = []"
  by (auto simp add: init_stats_def dest!: map_of_SomeD)

text \<open>The files and the statistics of a run that gets past the imports and the directories.\<close>

lemma generate_assets_run:
  assumes "packages_ok env" and "set formats \<subseteq> set valid_formats"
  shows "\<exists>st0. files st0 = [] \<and> stats st0 = init_stats formats \<and>
     files (snd (generate_assets env formats pf)) =
       files (preset_loop env formats (length (select_presets pf (list_presets env))) 1
                (select_presets pf (list_presets env)) st0) \<and>
     stats (snd (generate_assets env formats pf)) =
       stats (preset_loop env formats (length (select_presets pf (list_presets env))) 1
                (select_presets pf (list_presets env)) st0)"
proof -
  obtain ds where ga: "generate_assets env formats pf =
    (let presets = select_presets pf (list_presets env);
         st1 = preset_loop env formats (length presets) 1 presets
                 (initial\<lparr>dirs := ds, stats := init_stats formats,
                    out := [Generating (length presets), Formats_Line formats, Output_Base BASE_DIR, Rule]\<rparr>)
     in (None, st1\<lparr>out := out st1 @ [Rule, Summary] @
                concat (map (summary_of (length presets) (stats st1)) formats)\<rparr>))"
    using generate_assets_valid [OF assms, of pf] by blast
  define st0 where "st0 = initial\<lparr>dirs := ds, stats := init_stats formats,
     out := [Generating (length (select_presets pf (list_presets env))), Formats_Line formats,
             Output_Base BASE_DIR, Rule]\<rparr>"
  have "files st0 = []" "stats st0 = init_stats formats"
    by (simp_all add: st0_def initial_def)
  moreover have "files (snd (generate_assets env formats pf)) =
       files (preset_loop env formats (length (select_presets pf (list_presets env))) 1
                (select_presets pf (list_presets env)) st0)"
    by (simp add: ga Let_def st0_def)
  moreover have "stats (snd (generate_assets env formats pf)) =
       stats (preset_loop env formats (length (select_presets pf (list_presets env))) 1
                (select_presets pf (list_presets env)) st0)"
    by (simp add: ga Let_def st0_def)
  ultimately show ?thesis by blast
qed








lemma OUTPUT_DIRS_Some: "OUTPUT_DIRS f = Some d \<Longrightarrow> f \<in> set valid_formats"
  by (simp add: OUTPUT_DIRS_def valid_formats_def split: if_splits)

lemma make_dirs_None:
  "make_dirs formats st = (None, st') \<Longrightarrow> set formats \<subseteq> set valid_formats"
proof (induction formats arbitrary: st)
  case Nil
  show ?case by simp
next
  case (Cons f formats)
  then obtain d where d: "OUTPUT_DIRS f = Some d"
    by (cases "OUTPUT_DIRS f") auto
  with Cons.prems have "make_dirs formats (st\<lparr>dirs := dirs st @ [d]\<rparr>) = (None, st')"
    by simp
  from Cons.IH [OF this] OUTPUT_DIRS_Some [OF d] show ?case by simp
qed

text \<open>
  The files and the statistics at the end of any run are those of the loop over some
  list of presets, started with no file and empty failed lists.
\<close>

lemma generate_assets_shape:
  "\<exists>st0 names. files st0 = [] \<and> (\<forall>f. failed_for st0 f = []) \<and>
     files (snd (generate_assets env formats pf)) =
       files (preset_loop env formats (length names) 1 names st0) \<and>
     stats (snd (generate_assets env formats pf)) =
       stats (preset_loop env formats (length names) 1 names st0)"
proof (cases "packages_ok env \<and> set formats \<subseteq> set valid_formats")
  case True
  then obtain st0 where st0: "files st0 = []" "stats st0 = init_stats formats"
    and fl: "files (snd (generate_assets env formats pf)) =
       files (preset_loop env formats (length (select_presets pf (list_presets env))) 1
                (select_presets pf (list_presets env)) st0)"
    and sl: "stats (snd (generate_assets env formats pf)) =
       stats (preset_loop env formats (length (select_presets pf (list_presets env))) 1
                (select_presets pf (list_presets env)) st0)"
    using generate_assets_run [of env formats pf] by blast
  have "failed_for st0 f = []" for f
    using st0(2) init_stats_failed [of formats f]
    by (cases "init_stats formats f") (simp_all add: failed_for_def)
  with st0(1) fl sl show ?thesis by blast
next
  case False
  have "files (snd (generate_assets env formats pf)) = [] \<and>
        stats (snd (generate_assets env formats pf)) = Map.empty"
  proof (cases "packages_ok env")
    case False
    then show ?thesis by (simp add: generate_assets_def initial_def)
  next
    case ok: True
    obtain r st where md: "make_dirs formats initial = (r, st)"
      by (cases "make_dirs formats initial")
    with False ok have "r \<noteq> None"
      using make_dirs_None [of formats initial st] by (cases r) auto
    then obtain ex where "r = Some ex" by auto
    then have "snd (generate_assets env formats pf) = st"
      using ok md by (simp add: generate_assets_def)
    then show ?thesis using make_dirs_frame [OF md] by (simp add: initial_def)
  qed
  then have "files initial = [] \<and> (\<forall>f. failed_for initial f = []) \<and>
     files (snd (generate_assets env formats pf)) =
       files (preset_loop env formats (length ([] :: string list)) 1 [] initial) \<and>
     stats (snd (generate_assets env formats pf)) =
       stats (preset_loop env formats (length ([] :: string list)) 1 [] initial)"
    by (simp add: initial_def failed_for_def)
  then show ?thesis by blast
qed

lemma generate_assets_files_name:
  assumes "x \<in> set (files (snd (generate_assets env formats pf)))"
  shows "\<not> no_description env (fst x) \<and> (\<exists>geom. geometry_of env (fst x) = Inr geom)"
proof -
  obtain st0 names where "files st0 = []"
    and "files (snd (generate_assets env formats pf)) =
       files (preset_loop env formats (length names) 1 names st0)"
    using generate_assets_shape [of env formats pf] by blast
  then show ?thesis
    using assms preset_loop_files_name [of x env formats "length names" 1 names st0] by auto
qed


text \<open>What a completed run holds for a selected preset.\<close>

lemma generate_assets_failed_reached:
  assumes "packages_ok env" and "set formats \<subseteq> set valid_formats"
    and "name \<in> set (select_presets pf (list_presets env))"
    and "fmt \<in> set formats"
    and step: "\<And>i st. stats st fmt \<noteq> None \<Longrightarrow>
       name \<in> set (failed_for (process_preset env formats
         (length (select_presets pf (list_presets env))) i name st) fmt)"
  shows "name \<in> set (failed_for (snd (generate_assets env formats pf)) fmt)"
proof -
  obtain st0 where st0: "stats st0 = init_stats formats"
    and sl: "stats (snd (generate_assets env formats pf)) =
       stats (preset_loop env formats (length (select_presets pf (list_presets env))) 1
                (select_presets pf (list_presets env)) st0)"
    using generate_assets_run [OF assms(1,2), of pf] by blast
  have "stats st0 fmt \<noteq> None"
    using st0 assms(4) init_stats_dom [of formats fmt] by simp
  from preset_loop_reaches [OF assms(3) step this]
  show ?thesis by (simp add: failed_for_def sl)
qed

lemma generate_assets_file_written:
  assumes "packages_ok env" and "set formats \<subseteq> set valid_formats"
    and "name \<in> set (select_presets pf (list_presets env))"
    and "\<not> no_description env name" and "geometry_of env name = Inr geom"
    and "export_branch env geom name (normalize_filename name) fmt = Some (label, file, Inr p)"
    and "fmt \<in> set formats"
  shows "(name, p) \<in> set (files (snd (generate_assets env formats pf)))"
proof -
  obtain st0 where
    fl: "files (snd (generate_assets env formats pf)) =
       files (preset_loop env formats (length (select_presets pf (list_presets env))) 1
                (select_presets pf (list_presets env)) st0)"
    using generate_assets_run [OF assms(1,2), of pf] by blast
  show ?thesis
    unfolding fl by (rule preset_loop_file_written [OF assms(3-7)])
qed

lemma geometry_of_Inl_iff:
  "geometry_of env name = Inl e \<longleftrightarrow>
     parse_cdl env (case preset_cdl (get_preset env name) of None \<Rightarrow> [] | Some c \<Rightarrow> c) = Inl e \<or>
     (\<exists>desc. parse_cdl env (case preset_cdl (get_preset env name) of None \<Rightarrow> [] | Some c \<Rightarrow> c) = Inr desc \<and>
        cdl_to_geometry env desc = Inl e)"
  by (auto simp add: geometry_of_def build_geometry_def split: sum.splits)

text \<open>Where an entry of a failed list and a file come from.\<close>

lemma turn_failed_cause:
  "x \<in> set (failed (turn b name k s)) \<Longrightarrow>
   x \<in> set (failed s) \<or> (x = name \<and> (\<exists>label file e. b = Some (label, file, Inl e)))"
  by (auto simp add: turn_def split: option.splits sum.splits prod.splits)

lemma process_preset_failed_cause:
  assumes "x \<in> set (failed_for (process_preset env formats tot i name st) f)"
  shows "x \<in> set (failed_for st f) \<or>
    (x = name \<and> \<not> no_description env name \<and>
      ((\<exists>e. geometry_of env name = Inl e) \<or>
       (\<exists>geom label file e. geometry_of env name = Inr geom \<and>
          export_branch env geom name (normalize_filename name) f = Some (label, file, Inl e))))"
proof (cases "stats st f")
  case None
  then have "stats (process_preset env formats tot i name st) f = None"
    by (simp add: process_preset_dom)
  then show ?thesis using assms by (simp add: failed_for_def)
next
  case (Some s)
  show ?thesis
  proof (cases "geometry_of env name")
    case (Inl e)
    then show ?thesis
      using assms Some by (auto simp add: failed_for_def process_preset_stats split: if_splits)
  next
    case (Inr geom)
    then show ?thesis
      using assms Some
        turn_failed_cause [of x "export_branch env geom name (normalize_filename name) f" name
          "count_list formats f" s]
      by (auto simp add: failed_for_def process_preset_stats split: if_splits)
  qed
qed

lemma preset_loop_failed_cause:
  assumes "x \<in> set (failed_for (preset_loop env formats tot i names st) f)"
  shows "x \<in> set (failed_for st f) \<or>
    (\<not> no_description env x \<and>
      ((\<exists>e. geometry_of env x = Inl e) \<or>
       (\<exists>geom label file e. geometry_of env x = Inr geom \<and>
          export_branch env geom x (normalize_filename x) f = Some (label, file, Inl e))))"
  using assms
proof (induction names arbitrary: i st)
  case Nil
  then show ?case by simp
next
  case (Cons name names)
  from Cons.IH [OF Cons.prems [simplified]] show ?case
    using process_preset_failed_cause [of x env formats tot i name st f] by blast
qed

lemma generate_assets_failed_cause:
  assumes "x \<in> set (failed_for (snd (generate_assets env formats pf)) f)"
  shows "\<not> no_description env x \<and>
      ((\<exists>e. geometry_of env x = Inl e) \<or>
       (\<exists>geom label file e. geometry_of env x = Inr geom \<and>
          export_branch env geom x (normalize_filename x) f = Some (label, file, Inl e)))"
proof -
  obtain st0 names where "\<forall>f. failed_for st0 f = []"
    and "stats (snd (generate_assets env formats pf)) =
       stats (preset_loop env formats (length names) 1 names st0)"
    using generate_assets_shape [of env formats pf] by blast
  moreover from this(2) have "failed_for (snd (generate_assets env formats pf)) f =
       failed_for (preset_loop env formats (length names) 1 names st0) f"
    by (simp add: failed_for_def)
  ultimately show ?thesis
    using assms preset_loop_failed_cause [of x env formats "length names" 1 names st0 f] by auto
qed

lemma written_cause:
  "x \<in> set (written b name) \<Longrightarrow> \<exists>label file. b = Some (label, file, Inr (snd x)) \<and> fst x = name"
  by (auto simp add: written_def split: option.splits sum.splits prod.splits)

lemma process_preset_files_cause:
  assumes "x \<in> set (files (process_preset env formats tot i name st))"
  shows "x \<in> set (files st) \<or>
    (\<exists>geom fmt label file. geometry_of env (fst x) = Inr geom \<and>
       export_branch env geom (fst x) (normalize_filename (fst x)) fmt =
         Some (label, file, Inr (snd x)))"
proof (cases "geometry_of env name")
  case (Inl e)
  then show ?thesis using assms by (auto simp add: process_preset_files split: if_splits)
next
  case (Inr geom)
  then show ?thesis
    using assms by (auto simp add: process_preset_files split: if_splits dest!: written_cause)
qed

lemma preset_loop_files_cause:
  assumes "x \<in> set (files (preset_loop env formats tot i names st))"
  shows "x \<in> set (files st) \<or>
    (\<exists>geom fmt label file. geometry_of env (fst x) = Inr geom \<and>
       export_branch env geom (fst x) (normalize_filename (fst x)) fmt =
         Some (label, file, Inr (snd x)))"
  using assms
proof (induction names arbitrary: i st)
  case Nil
  then show ?case by simp
next
  case (Cons name names)
  from Cons.IH [OF Cons.prems [simplified]] show ?case
    using process_preset_files_cause [of x env formats tot i name st] by blast
qed

lemma generate_assets_files_cause:
  assumes "x \<in> set (files (snd (generate_assets env formats pf)))"
  shows "\<exists>geom fmt label file. geometry_of env (fst x) = Inr geom \<and>
       export_branch env geom (fst x) (normalize_filename (fst x)) fmt =
         Some (label, file, Inr (snd x))"
proof -
  obtain st0 names where "files st0 = []"
    and "files (snd (generate_assets env formats pf)) =
       files (preset_loop env formats (length names) 1 names st0)"
    using generate_assets_shape [of env formats pf] by blast
  then show ?thesis
    using assms preset_loop_files_cause [of x env formats "length names" 1 names st0] by auto
qed

text \<open>The path a branch writes to, format by format.\<close>

lemma export_branch_path:
  assumes "export_branch env geom name filename fmt = Some (label, file, Inr p)"
  shows "(fmt = ''svg'' \<and> p = Slash (Slash BASE_DIR ''crystals'') (filename @ ''.svg'')) \<or>
         (fmt = ''stl'' \<and> p = Slash (Slash (Slash BASE_DIR ''models'') ''stl'') (filename @ ''.stl'')) \<or>
         (fmt = ''gltf'' \<and> p = Slash (Slash (Slash BASE_DIR ''models'') ''gltf'') (filename @ ''.glb'')) \<or>
         (fmt = ''obj'' \<and> p = Slash (Slash (Slash BASE_DIR ''models'') ''obj'') (filename @ ''.obj''))"
  using assms
  by (auto simp add: export_branch_def export_to_def OUTPUT_DIRS_def split: if_splits sum.splits)

lemma export_format_gltf:
  "files (export_format env geom name filename ''gltf'' st) =
     files st @
     (case export_gltf env geom
             (Slash (Slash (Slash BASE_DIR ''models'') ''gltf'') (filename @ ''.glb'')) name of
        Inl e \<Rightarrow> []
      | Inr u \<Rightarrow> [(name, Slash (Slash (Slash BASE_DIR ''models'') ''gltf'') (filename @ ''.glb''))])"
  by (simp add: export_format_files written_def export_branch_def export_to_def OUTPUT_DIRS_def
      split: sum.split)

lemma export_format_svg:
  "files (export_format env geom name filename ''svg'' st) =
     files st @
     (case generate_geometry_svg env geom (Slash (Slash BASE_DIR ''crystals'') (filename @ ''.svg'')) of
        Inl e \<Rightarrow> []
      | Inr u \<Rightarrow> [(name, Slash (Slash BASE_DIR ''crystals'') (filename @ ''.svg''))])"
  by (simp add: export_format_files written_def export_branch_def export_to_def OUTPUT_DIRS_def
      split: sum.split)

lemma export_format_stl:
  "files (export_format env geom name filename ''stl'' st) =
     files st @
     (case export_stl env geom (Slash (Slash (Slash BASE_DIR ''models'') ''stl'') (filename @ ''.stl'')) of
        Inl e \<Rightarrow> []
      | Inr u \<Rightarrow> [(name, Slash (Slash (Slash BASE_DIR ''models'') ''stl'') (filename @ ''.stl''))])"
  by (simp add: export_format_files written_def export_branch_def export_to_def OUTPUT_DIRS_def
      split: sum.split)

lemma export_format_obj:
  "files (export_format env geom name filename ''obj'' st) =
     files st @
     (case export_obj env geom
             (Slash (Slash (Slash BASE_DIR ''models'') ''obj'') (filename @ ''.obj'')) name of
        Inl e \<Rightarrow> []
      | Inr u \<Rightarrow> [(name, Slash (Slash (Slash BASE_DIR ''models'') ''obj'') (filename @ ''.obj''))])"
  by (simp add: export_format_files written_def export_branch_def export_to_def OUTPUT_DIRS_def
      split: sum.split)

lemma export_branch_gltf_ok:
  assumes "export_gltf env geom
     (Slash (Slash (Slash BASE_DIR ''models'') ''gltf'') (filename @ ''.glb'')) name = Inr u"
  shows "export_branch env geom name filename ''gltf'' =
     Some (''glTF'', filename @ ''.glb'',
       Inr (Slash (Slash (Slash BASE_DIR ''models'') ''gltf'') (filename @ ''.glb'')))"
  using assms by (simp add: export_branch_def export_to_def OUTPUT_DIRS_def)

lemma export_branch_raises:
  "(generate_geometry_svg env geom (Slash (Slash BASE_DIR ''crystals'') (filename @ ''.svg'')) = Inl e \<longrightarrow>
      export_branch env geom name filename ''svg'' = Some (''SVG'', filename @ ''.svg'', Inl e)) \<and>
   (export_stl env geom (Slash (Slash (Slash BASE_DIR ''models'') ''stl'') (filename @ ''.stl'')) = Inl e \<longrightarrow>
      export_branch env geom name filename ''stl'' = Some (''STL'', filename @ ''.stl'', Inl e)) \<and>
   (export_gltf env geom (Slash (Slash (Slash BASE_DIR ''models'') ''gltf'') (filename @ ''.glb'')) name = Inl e \<longrightarrow>
      export_branch env geom name filename ''gltf'' = Some (''glTF'', filename @ ''.glb'', Inl e)) \<and>
   (export_obj env geom (Slash (Slash (Slash BASE_DIR ''models'') ''obj'') (filename @ ''.obj'')) name = Inl e \<longrightarrow>
      export_branch env geom name filename ''obj'' = Some (''OBJ'', filename @ ''.obj'', Inl e))"
  by (simp add: export_branch_def export_to_def OUTPUT_DIRS_def)

section \<open>Claims\<close>


text \<open>
  Claim C3, at the name \<open>Lapis Lazuli (Var.)\<close>: generate-crystal-assets.py keeps the
  parentheses in the stem of its output file, where \<open>normalize_filename\<close> of
  generate-all-assets.py removes them.
\<close>

theorem svg_filename_keeps_parentheses:
  "svg_filename ''Lapis Lazuli (Var.)'' = ''lapis-lazuli-(var.)'' \<and>
   normalize_filename ''Lapis Lazuli (Var.)'' = ''lapis-lazuli-var.''"
  by code_simp

text \<open>
  Claim C6, with the packages missing and no \<open>--placeholder\<close> flag:
  generate-crystal-assets.py prints the message about the missing package and exits with
  status 1; it writes no placeholder file.
\<close>

theorem svg_main_missing_packages:
  "svg_main (env\<lparr>svg_packages_ok := False\<rparr>) False =
     (1, svg_initial\<lparr>svg_out := [Missing_Package]\<rparr>) \<and>
   svg_written (snd (svg_main (env\<lparr>svg_packages_ok := False\<rparr>) False)) = []"
  by (simp add: svg_main_def svg_generate_assets_def svg_initial_def)

text \<open>
  Claim C9. The placeholder SVG does not depend on the name: any two names give the same
  text, which holds four polygons. Every file the placeholder path writes has that text;
  the files are \<open>OUTPUT_DIR / (name + ".svg")\<close> for the names of the list \<open>minerals\<close>, in
  its order.
\<close>

theorem placeholder_svg_fixed:
  "generate_placeholder_svg a = generate_placeholder_svg b \<and>
   occurrences ''<polygon '' (generate_placeholder_svg a) = 4 \<and>
   svg_written (generate_placeholder_assets st) =
     svg_written st @
     map (\<lambda>n. (Slash OUTPUT_DIR (n @ ''.svg''), generate_placeholder_svg a)) minerals"
proof -
  have same: "generate_placeholder_svg x = generate_placeholder_svg []" for x
    by (simp add: generate_placeholder_svg_def)
  have "generate_placeholder_svg a = generate_placeholder_svg b"
    using same [of a] same [of b] by simp
  moreover have "occurrences ''<polygon '' (generate_placeholder_svg a) = 4"
    using placeholder_polygons same [of a] by simp
  moreover have "svg_written (generate_placeholder_assets st) =
     svg_written st @
     map (\<lambda>n. (Slash OUTPUT_DIR (n @ ''.svg''), generate_placeholder_svg a)) minerals"
    by (simp add: generate_placeholder_assets_def Let_def placeholder_loop_written [of _ _ _ _ a])
  ultimately show ?thesis by simp
qed







text \<open>
  Claim C2. The geometry of a preset fails when parsing its description or building the
  buffer from it raises. For a preset with a description whose geometry fails, the
  preset's turn writes no file and appends the name to the failed list of every
  requested format (once for each time the format is requested); the loop goes on with
  the next preset. At the end of a run that got past its start-up, no file has been
  written for the preset and every requested format's failed list names it.
\<close>

theorem geometry_failure:
  "(geometry_of env name = Inl e \<longleftrightarrow>
      parse_cdl env (case preset_cdl (get_preset env name) of None \<Rightarrow> [] | Some c \<Rightarrow> c) = Inl e \<or>
      (\<exists>desc. parse_cdl env (case preset_cdl (get_preset env name) of None \<Rightarrow> [] | Some c \<Rightarrow> c) = Inr desc \<and>
         cdl_to_geometry env desc = Inl e)) \<and>
   (\<not> no_description env name \<and> geometry_of env name = Inl e \<longrightarrow>
      files (process_preset env formats tot i name st) = files st \<and>
      (\<forall>fmt s. stats st fmt = Some s \<longrightarrow>
         stats (process_preset env formats tot i name st) fmt =
           Some (s\<lparr>failed := failed s @ replicate (count_list formats fmt) name\<rparr>)) \<and>
      preset_loop env formats tot i (name # names) st =
        preset_loop env formats tot (Suc i) names (process_preset env formats tot i name st) \<and>
      (\<forall>p. (name, p) \<notin> set (files (snd (generate_assets env formats pf)))) \<and>
      (packages_ok env \<and> set formats \<subseteq> set valid_formats \<and>
       name \<in> set (select_presets pf (list_presets env)) \<longrightarrow>
         (\<forall>fmt \<in> set formats.
            name \<in> set (failed_for (snd (generate_assets env formats pf)) fmt))))"
proof -
  have "files (process_preset env formats tot i name st) = files st \<and>
      (\<forall>fmt s. stats st fmt = Some s \<longrightarrow>
         stats (process_preset env formats tot i name st) fmt =
           Some (s\<lparr>failed := failed s @ replicate (count_list formats fmt) name\<rparr>)) \<and>
      (\<forall>p. (name, p) \<notin> set (files (snd (generate_assets env formats pf)))) \<and>
      (packages_ok env \<and> set formats \<subseteq> set valid_formats \<and>
       name \<in> set (select_presets pf (list_presets env)) \<longrightarrow>
         (\<forall>fmt \<in> set formats.
            name \<in> set (failed_for (snd (generate_assets env formats pf)) fmt)))"
    if skip: "\<not> no_description env name" and geo: "geometry_of env name = Inl e"
  proof -
    have a: "files (process_preset env formats tot i name st) = files st"
      using skip geo by (simp add: process_preset_files)
    have b: "stats (process_preset env formats tot i name st) fmt =
           Some (s\<lparr>failed := failed s @ replicate (count_list formats fmt) name\<rparr>)"
      if "stats st fmt = Some s" for fmt s
      using skip geo that by (simp add: process_preset_stats)
    have c: "(name, p) \<notin> set (files (snd (generate_assets env formats pf)))" for p
      using generate_assets_files_name [of "(name, p)" env formats pf] geo by auto
    have d: "name \<in> set (failed_for (snd (generate_assets env formats pf)) fmt)"
      if "packages_ok env" "set formats \<subseteq> set valid_formats"
        "name \<in> set (select_presets pf (list_presets env))" "fmt \<in> set formats" for fmt
      using that(1,2,3,4)
    proof (rule generate_assets_failed_reached)
      fix j :: nat and st' :: state
      assume "stats st' fmt \<noteq> None"
      with skip geo that(4)
      show "name \<in> set (failed_for (process_preset env formats
         (length (select_presets pf (list_presets env))) j name st') fmt)"
        by (rule process_preset_geometry_failed)
    qed
    show ?thesis using a b c d by blast
  qed
  then show ?thesis
    using geometry_of_Inl_iff [of env name e] by simp
qed

theorem geometry_failure_witness:
  "\<not> no_description demo_env ''Ruby'' \<and>
   geometry_of demo_env ''Ruby'' = Inl ''no parse'' \<and>
   files (process_preset demo_env [''svg'', ''stl''] 5 4 ''Ruby'' initial) = files initial \<and>
   (\<forall>p. (''Ruby'', p) \<notin> set (files (snd (generate_assets demo_env [''svg'', ''stl''] None)))) \<and>
   ''Ruby'' \<in> set (failed_for (snd (generate_assets demo_env [''svg'', ''stl''] None)) ''svg'') \<and>
   ''Ruby'' \<in> set (failed_for (snd (generate_assets demo_env [''svg'', ''stl''] None)) ''stl'')"
proof -
  have a: "\<not> no_description demo_env ''Ruby''"
    by (simp add: no_description_def demo_env_def not_preset_def not_cdl_def preset_cdl_def)
  have b: "geometry_of demo_env ''Ruby'' = Inl ''no parse''"
    by (simp add: geometry_of_def build_geometry_def demo_env_def preset_cdl_def)
  have c: "packages_ok demo_env" by (simp add: demo_env_def)
  have d: "set [''svg'', ''stl''] \<subseteq> set valid_formats" by (simp add: valid_formats_def)
  have e: "''Ruby'' \<in> set (select_presets None (list_presets demo_env))"
    by (simp add: select_presets_def demo_env_def)
  from geometry_failure [of demo_env "''Ruby''" "''no parse''" "[''svg'', ''stl'']" 5 4 initial "[]" None]
    a b c d e
  show ?thesis by simp
qed

text \<open>
  Claim C1. An exporter that raises makes its format's branch end in the \<open>except\<close>
  clause. For a preset whose geometry was built and a format whose exporter raises, the
  preset's turn appends the name to that format's failed list (once for each time the
  format is requested). Every other format is still tried: one whose exporter returns
  has its success counted, its failed list unchanged and its file written. The loop goes
  on with the next preset. At the end of a run that got past its start-up, the failing
  format's list names the preset, and for every requested format whose exporter returns
  the file has been written and the list does not name the preset.
\<close>

theorem export_failure_isolated:
  "((generate_geometry_svg env geom (Slash (Slash BASE_DIR ''crystals'') (filename @ ''.svg'')) = Inl e \<longrightarrow>
      export_branch env geom name filename ''svg'' = Some (''SVG'', filename @ ''.svg'', Inl e)) \<and>
    (export_stl env geom (Slash (Slash (Slash BASE_DIR ''models'') ''stl'') (filename @ ''.stl'')) = Inl e \<longrightarrow>
      export_branch env geom name filename ''stl'' = Some (''STL'', filename @ ''.stl'', Inl e)) \<and>
    (export_gltf env geom (Slash (Slash (Slash BASE_DIR ''models'') ''gltf'') (filename @ ''.glb'')) name = Inl e \<longrightarrow>
      export_branch env geom name filename ''gltf'' = Some (''glTF'', filename @ ''.glb'', Inl e)) \<and>
    (export_obj env geom (Slash (Slash (Slash BASE_DIR ''models'') ''obj'') (filename @ ''.obj'')) name = Inl e \<longrightarrow>
      export_branch env geom name filename ''obj'' = Some (''OBJ'', filename @ ''.obj'', Inl e))) \<and>
   (\<not> no_description env name \<and> geometry_of env name = Inr geom \<and>
    export_branch env geom name (normalize_filename name) fmt = Some (label, file, Inl e) \<longrightarrow>
      (\<forall>s. stats st fmt = Some s \<longrightarrow>
         stats (process_preset env formats tot i name st) fmt =
           Some (s\<lparr>failed := failed s @ replicate (count_list formats fmt) name\<rparr>)) \<and>
      (\<forall>fmt' s' label' file' p.
         stats st fmt' = Some s' \<and>
         export_branch env geom name (normalize_filename name) fmt' = Some (label', file', Inr p) \<longrightarrow>
           stats (process_preset env formats tot i name st) fmt' =
             Some (s'\<lparr>success := success s' + count_list formats fmt'\<rparr>)) \<and>
      (\<forall>fmt' label' file' p.
         fmt' \<in> set formats \<and>
         export_branch env geom name (normalize_filename name) fmt' = Some (label', file', Inr p) \<longrightarrow>
           (name, p) \<in> set (files (process_preset env formats tot i name st))) \<and>
      preset_loop env formats tot i (name # names) st =
        preset_loop env formats tot (Suc i) names (process_preset env formats tot i name st) \<and>
      (packages_ok env \<and> set formats \<subseteq> set valid_formats \<and>
       name \<in> set (select_presets pf (list_presets env)) \<longrightarrow>
         (fmt \<in> set formats \<longrightarrow>
            name \<in> set (failed_for (snd (generate_assets env formats pf)) fmt)) \<and>
         (\<forall>fmt' label' file' p.
            fmt' \<in> set formats \<and>
            export_branch env geom name (normalize_filename name) fmt' = Some (label', file', Inr p) \<longrightarrow>
              (name, p) \<in> set (files (snd (generate_assets env formats pf))) \<and>
              name \<notin> set (failed_for (snd (generate_assets env formats pf)) fmt'))))"
proof -
  have main: "(\<forall>s. stats st fmt = Some s \<longrightarrow>
         stats (process_preset env formats tot i name st) fmt =
           Some (s\<lparr>failed := failed s @ replicate (count_list formats fmt) name\<rparr>)) \<and>
      (\<forall>fmt' s' label' file' p.
         stats st fmt' = Some s' \<and>
         export_branch env geom name (normalize_filename name) fmt' = Some (label', file', Inr p) \<longrightarrow>
           stats (process_preset env formats tot i name st) fmt' =
             Some (s'\<lparr>success := success s' + count_list formats fmt'\<rparr>)) \<and>
      (\<forall>fmt' label' file' p.
         fmt' \<in> set formats \<and>
         export_branch env geom name (normalize_filename name) fmt' = Some (label', file', Inr p) \<longrightarrow>
           (name, p) \<in> set (files (process_preset env formats tot i name st))) \<and>
      (packages_ok env \<and> set formats \<subseteq> set valid_formats \<and>
       name \<in> set (select_presets pf (list_presets env)) \<longrightarrow>
         (fmt \<in> set formats \<longrightarrow>
            name \<in> set (failed_for (snd (generate_assets env formats pf)) fmt)) \<and>
         (\<forall>fmt' label' file' p.
            fmt' \<in> set formats \<and>
            export_branch env geom name (normalize_filename name) fmt' = Some (label', file', Inr p) \<longrightarrow>
              (name, p) \<in> set (files (snd (generate_assets env formats pf))) \<and>
              name \<notin> set (failed_for (snd (generate_assets env formats pf)) fmt')))"
    if skip: "\<not> no_description env name" and geo: "geometry_of env name = Inr geom"
      and bad: "export_branch env geom name (normalize_filename name) fmt = Some (label, file, Inl e)"
  proof -
    have a: "stats (process_preset env formats tot i name st) fmt =
           Some (s\<lparr>failed := failed s @ replicate (count_list formats fmt) name\<rparr>)"
      if "stats st fmt = Some s" for s
      using skip geo bad that by (simp add: process_preset_stats turn_def)
    have b: "stats (process_preset env formats tot i name st) fmt' =
             Some (s'\<lparr>success := success s' + count_list formats fmt'\<rparr>)"
      if "stats st fmt' = Some s'"
        "export_branch env geom name (normalize_filename name) fmt' = Some (label', file', Inr p)"
      for fmt' s' label' file' p
      using skip geo that by (simp add: process_preset_stats turn_def)
    have c: "(name, p) \<in> set (files (process_preset env formats tot i name st))"
      if "fmt' \<in> set formats"
        "export_branch env geom name (normalize_filename name) fmt' = Some (label', file', Inr p)"
      for fmt' label' file' p
      using process_preset_file_written [OF skip geo that(2,1)] .
    have d: "name \<in> set (failed_for (snd (generate_assets env formats pf)) fmt)"
      if "packages_ok env" "set formats \<subseteq> set valid_formats"
        "name \<in> set (select_presets pf (list_presets env))" "fmt \<in> set formats"
      using that(1,2,3,4)
    proof (rule generate_assets_failed_reached)
      fix j :: nat and st' :: state
      assume "stats st' fmt \<noteq> None"
      with skip geo bad that(4)
      show "name \<in> set (failed_for (process_preset env formats
         (length (select_presets pf (list_presets env))) j name st') fmt)"
        by (rule process_preset_export_failed)
    qed
    have e: "(name, p) \<in> set (files (snd (generate_assets env formats pf))) \<and>
              name \<notin> set (failed_for (snd (generate_assets env formats pf)) fmt')"
      if "packages_ok env" "set formats \<subseteq> set valid_formats"
        "name \<in> set (select_presets pf (list_presets env))" "fmt' \<in> set formats"
        "export_branch env geom name (normalize_filename name) fmt' = Some (label', file', Inr p)"
      for fmt' label' file' p
    proof
      show "(name, p) \<in> set (files (snd (generate_assets env formats pf)))"
        using generate_assets_file_written [OF that(1,2,3) skip geo that(5,4)] .
      show "name \<notin> set (failed_for (snd (generate_assets env formats pf)) fmt')"
        using generate_assets_failed_cause [of name env formats pf fmt'] geo that(5) by auto
    qed
    show ?thesis using a b c d e by blast
  qed
  show ?thesis
    using export_branch_raises [of env geom filename e name] main by simp
qed

theorem export_failure_isolated_witness:
  "export_gltf demo_env ''cdl of Quartz''
     (Slash (Slash (Slash BASE_DIR ''models'') ''gltf'') (''quartz'' @ ''.glb'')) ''Quartz'' =
     Inl ''no mesh'' \<and>
   ''Quartz'' \<in> set (failed_for (snd (generate_assets demo_env [''svg'', ''gltf'', ''obj''] None)) ''gltf'') \<and>
   (''Quartz'', Slash (Slash BASE_DIR ''crystals'') ''quartz.svg'')
     \<in> set (files (snd (generate_assets demo_env [''svg'', ''gltf'', ''obj''] None))) \<and>
   ''Quartz'' \<notin> set (failed_for (snd (generate_assets demo_env [''svg'', ''gltf'', ''obj''] None)) ''svg'') \<and>
   (''Quartz'', Slash (Slash (Slash BASE_DIR ''models'') ''obj'') ''quartz.obj'')
     \<in> set (files (snd (generate_assets demo_env [''svg'', ''gltf'', ''obj''] None))) \<and>
   ''Quartz'' \<notin> set (failed_for (snd (generate_assets demo_env [''svg'', ''gltf'', ''obj''] None)) ''obj'')"
proof -
  have n: "normalize_filename ''Quartz'' = ''quartz''" by code_simp
  have a: "\<not> no_description demo_env ''Quartz''"
    by (simp add: no_description_def demo_env_def not_preset_def not_cdl_def preset_cdl_def)
  have b: "geometry_of demo_env ''Quartz'' = Inr ''cdl of Quartz''"
    by (simp add: geometry_of_def build_geometry_def demo_env_def preset_cdl_def)
  have g: "export_gltf demo_env ''cdl of Quartz''
     (Slash (Slash (Slash BASE_DIR ''models'') ''gltf'') (''quartz'' @ ''.glb'')) ''Quartz'' =
     Inl ''no mesh''"
    by (simp add: demo_env_def)
  have bad: "export_branch demo_env ''cdl of Quartz'' ''Quartz'' (normalize_filename ''Quartz'') ''gltf'' =
     Some (''glTF'', ''quartz'' @ ''.glb'', Inl ''no mesh'')"
    using export_failure_isolated [of demo_env "''cdl of Quartz''" "''quartz''" "''no mesh''" "''Quartz''"] g
    unfolding n by blast
  have svg: "export_branch demo_env ''cdl of Quartz'' ''Quartz'' (normalize_filename ''Quartz'') ''svg'' =
     Some (''SVG'', ''quartz.svg'', Inr (Slash (Slash BASE_DIR ''crystals'') ''quartz.svg''))"
    unfolding n by (simp add: export_branch_def export_to_def OUTPUT_DIRS_def demo_env_def)
  have obj: "export_branch demo_env ''cdl of Quartz'' ''Quartz'' (normalize_filename ''Quartz'') ''obj'' =
     Some (''OBJ'', ''quartz.obj'', Inr (Slash (Slash (Slash BASE_DIR ''models'') ''obj'') ''quartz.obj''))"
    unfolding n by (simp add: export_branch_def export_to_def OUTPUT_DIRS_def demo_env_def)
  have c: "packages_ok demo_env" by (simp add: demo_env_def)
  have d: "set [''svg'', ''gltf'', ''obj''] \<subseteq> set valid_formats" by (simp add: valid_formats_def)
  have e: "''Quartz'' \<in> set (select_presets None (list_presets demo_env))"
    by (simp add: select_presets_def demo_env_def)
  have f: "''gltf'' \<in> set [''svg'', ''gltf'', ''obj'']" "''svg'' \<in> set [''svg'', ''gltf'', ''obj'']"
    "''obj'' \<in> set [''svg'', ''gltf'', ''obj'']"
    by simp_all
  note run = export_failure_isolated [of demo_env "''cdl of Quartz''" "''quartz''" "''no mesh''"
      "''Quartz''" "''gltf''" "''glTF''" "''quartz'' @ ''.glb''" initial "[''svg'', ''gltf'', ''obj'']" 5 1 "[]" None]
  from run a b bad c d e f(1)
  have 1: "''Quartz'' \<in> set (failed_for (snd (generate_assets demo_env [''svg'', ''gltf'', ''obj''] None)) ''gltf'')"
    by blast
  from run a b bad c d e f(2) svg
  have 2: "(''Quartz'', Slash (Slash BASE_DIR ''crystals'') ''quartz.svg'')
     \<in> set (files (snd (generate_assets demo_env [''svg'', ''gltf'', ''obj''] None))) \<and>
   ''Quartz'' \<notin> set (failed_for (snd (generate_assets demo_env [''svg'', ''gltf'', ''obj''] None)) ''svg'')"
    by blast
  from run a b bad c d e f(3) obj
  have 3: "(''Quartz'', Slash (Slash (Slash BASE_DIR ''models'') ''obj'') ''quartz.obj'')
     \<in> set (files (snd (generate_assets demo_env [''svg'', ''gltf'', ''obj''] None))) \<and>
   ''Quartz'' \<notin> set (failed_for (snd (generate_assets demo_env [''svg'', ''gltf'', ''obj''] None)) ''obj'')"
    by blast
  from g 1 2 3 show ?thesis by blast
qed

text \<open>
  Claim C10. The file written for the format \<open>gltf\<close> is the gltf output directory
  joined with the stem plus \<open>.glb\<close>; the files of svg, stl and obj carry the format
  name as their extension. When the glTF exporter returns for a selected preset whose
  geometry was built, a run that got past its start-up has written that \<open>.glb\<close> file
  under the normalized stem, and no run writes a file with the extension \<open>.gltf\<close> into
  the gltf directory for it.
\<close>

theorem gltf_written_as_glb:
  "files (export_format env geom name filename ''gltf'' st) =
     files st @
     (case export_gltf env geom
             (Slash (Slash (Slash BASE_DIR ''models'') ''gltf'') (filename @ ''.glb'')) name of
        Inl e \<Rightarrow> []
      | Inr u \<Rightarrow> [(name, Slash (Slash (Slash BASE_DIR ''models'') ''gltf'') (filename @ ''.glb''))]) \<and>
   files (export_format env geom name filename ''svg'' st) =
     files st @
     (case generate_geometry_svg env geom (Slash (Slash BASE_DIR ''crystals'') (filename @ ''.svg'')) of
        Inl e \<Rightarrow> []
      | Inr u \<Rightarrow> [(name, Slash (Slash BASE_DIR ''crystals'') (filename @ ''.svg''))]) \<and>
   files (export_format env geom name filename ''stl'' st) =
     files st @
     (case export_stl env geom (Slash (Slash (Slash BASE_DIR ''models'') ''stl'') (filename @ ''.stl'')) of
        Inl e \<Rightarrow> []
      | Inr u \<Rightarrow> [(name, Slash (Slash (Slash BASE_DIR ''models'') ''stl'') (filename @ ''.stl''))]) \<and>
   files (export_format env geom name filename ''obj'' st) =
     files st @
     (case export_obj env geom
             (Slash (Slash (Slash BASE_DIR ''models'') ''obj'') (filename @ ''.obj'')) name of
        Inl e \<Rightarrow> []
      | Inr u \<Rightarrow> [(name, Slash (Slash (Slash BASE_DIR ''models'') ''obj'') (filename @ ''.obj''))]) \<and>
   OUTPUT_DIRS ''gltf'' = Some (Slash (Slash BASE_DIR ''models'') ''gltf'') \<and>
   (packages_ok env \<and> set formats \<subseteq> set valid_formats \<and>
    name \<in> set (select_presets pf (list_presets env)) \<and> ''gltf'' \<in> set formats \<and>
    \<not> no_description env name \<and> geometry_of env name = Inr geom \<and>
    export_gltf env geom
      (Slash (Slash (Slash BASE_DIR ''models'') ''gltf'') (normalize_filename name @ ''.glb'')) name = Inr u \<longrightarrow>
      (name, Slash (Slash (Slash BASE_DIR ''models'') ''gltf'') (normalize_filename name @ ''.glb''))
        \<in> set (files (snd (generate_assets env formats pf)))) \<and>
   (name, Slash (Slash (Slash BASE_DIR ''models'') ''gltf'') (normalize_filename name @ ''.gltf''))
      \<notin> set (files (snd (generate_assets env formats pf)))"
proof -
  have dir: "OUTPUT_DIRS ''gltf'' = Some (Slash (Slash BASE_DIR ''models'') ''gltf'')"
    by (simp add: OUTPUT_DIRS_def)
  have glb: "(name, Slash (Slash (Slash BASE_DIR ''models'') ''gltf'') (normalize_filename name @ ''.glb''))
        \<in> set (files (snd (generate_assets env formats pf)))"
    if "packages_ok env" "set formats \<subseteq> set valid_formats"
      "name \<in> set (select_presets pf (list_presets env))" "''gltf'' \<in> set formats"
      "\<not> no_description env name" "geometry_of env name = Inr geom"
      "export_gltf env geom
        (Slash (Slash (Slash BASE_DIR ''models'') ''gltf'') (normalize_filename name @ ''.glb'')) name = Inr u"
    using generate_assets_file_written [OF that(1,2,3,5,6) export_branch_gltf_ok [OF that(7)] that(4)] .
  have no_gltf: "(name, Slash (Slash (Slash BASE_DIR ''models'') ''gltf'') (normalize_filename name @ ''.gltf''))
      \<notin> set (files (snd (generate_assets env formats pf)))"
  proof
    assume "(name, Slash (Slash (Slash BASE_DIR ''models'') ''gltf'') (normalize_filename name @ ''.gltf''))
      \<in> set (files (snd (generate_assets env formats pf)))"
    then obtain g fmt lbl fl where
      "export_branch env g name (normalize_filename name) fmt =
         Some (lbl, fl, Inr (Slash (Slash (Slash BASE_DIR ''models'') ''gltf'')
           (normalize_filename name @ ''.gltf'')))"
      using generate_assets_files_cause
        [of "(name, Slash (Slash (Slash BASE_DIR ''models'') ''gltf'') (normalize_filename name @ ''.gltf''))"
          env formats pf]
      by auto
    from export_branch_path [OF this] show False by simp
  qed
  show ?thesis
    using dir glb no_gltf
      export_format_gltf [of env geom name filename st]
      export_format_svg [of env geom name filename st]
      export_format_stl [of env geom name filename st]
      export_format_obj [of env geom name filename st]
    by simp
qed

theorem gltf_written_as_glb_witness:
  "export_gltf demo_env ''cdl of Rose Quartz''
     (Slash (Slash (Slash BASE_DIR ''models'') ''gltf'') (normalize_filename ''Rose Quartz'' @ ''.glb''))
     ''Rose Quartz'' = Inr () \<and>
   (''Rose Quartz'', Slash (Slash (Slash BASE_DIR ''models'') ''gltf'') ''rose-quartz.glb'')
      \<in> set (files (snd (generate_assets demo_env [''gltf''] (Some ''rose''))))"
proof -
  have n: "normalize_filename ''Rose Quartz'' @ ''.glb'' = ''rose-quartz.glb''" by code_simp
  have a: "\<not> no_description demo_env ''Rose Quartz''"
    by (simp add: no_description_def demo_env_def not_preset_def not_cdl_def preset_cdl_def)
  have b: "geometry_of demo_env ''Rose Quartz'' = Inr ''cdl of Rose Quartz''"
    by (simp add: geometry_of_def build_geometry_def demo_env_def preset_cdl_def)
  have g: "export_gltf demo_env ''cdl of Rose Quartz''
     (Slash (Slash (Slash BASE_DIR ''models'') ''gltf'') (normalize_filename ''Rose Quartz'' @ ''.glb''))
     ''Rose Quartz'' = Inr ()"
    by (simp add: demo_env_def)
  have c: "packages_ok demo_env" by (simp add: demo_env_def)
  have d: "set [''gltf''] \<subseteq> set valid_formats" by (simp add: valid_formats_def)
  have e: "''Rose Quartz'' \<in> set (select_presets (Some ''rose'') (list_presets demo_env))"
    by code_simp
  have f: "''gltf'' \<in> set [''gltf'']" by simp
  from gltf_written_as_glb [of demo_env "''cdl of Rose Quartz''" "''Rose Quartz''" "[]" initial
      "[''gltf'']" "Some ''rose''" "()"] a b c d e f g
  have "(''Rose Quartz'', Slash (Slash (Slash BASE_DIR ''models'') ''gltf'')
           (normalize_filename ''Rose Quartz'' @ ''.glb''))
      \<in> set (files (snd (generate_assets demo_env [''gltf''] (Some ''rose''))))"
    by blast
  with g show ?thesis unfolding n by blast
qed

section \<open>Further properties\<close>

text \<open>
  The stem that generate-all-assets.py gives a name is the lowercased name with every
  space turned into a hyphen and every apostrophe and parenthesis dropped; it holds no
  space, apostrophe or parenthesis.
\<close>

theorem normalize_filename_characters:
  "normalize_filename name =
     filter (\<lambda>c. c \<noteq> CHR 0x27 \<and> c \<noteq> CHR ''('' \<and> c \<noteq> CHR '')'')
       (map (\<lambda>c. if c = CHR '' '' then CHR ''-'' else c) (lower name)) \<and>
   CHR '' '' \<notin> set (normalize_filename name) \<and>
   CHR 0x27 \<notin> set (normalize_filename name) \<and>
   CHR ''('' \<notin> set (normalize_filename name) \<and>
   CHR '')'' \<notin> set (normalize_filename name)"
proof -
  have "CHR '' '' \<notin> set (normalize_filename name)"
    by (auto simp add: normalize_filename_filter_map)
  moreover have "CHR 0x27 \<notin> set (normalize_filename name)"
    "CHR ''('' \<notin> set (normalize_filename name)"
    "CHR '')'' \<notin> set (normalize_filename name)"
    by (simp_all add: normalize_filename_filter_map)
  ultimately show ?thesis
    using normalize_filename_filter_map [of name] by simp
qed

end
